theory Spec2Isabelle
  imports Complex_Main
begin

section \<open>Python values\<close>

text \<open>
  A Python \<open>str\<close> is a sequence of Unicode code points, and every index, slice and
  \<open>len\<close> of the program counts code points, so a string is a list of code points here.
  \<open>ustr\<close> embeds an ASCII literal.
\<close>

type_synonym pystr = "nat list"

definition ustr :: "string \<Rightarrow> pystr" where
  "ustr s = map of_char s"

text \<open>Truthiness of an optional string: \<open>None\<close> and \<open>""\<close> are falsy.\<close>

fun truthy :: "pystr option \<Rightarrow> bool" where
  "truthy None = False"
| "truthy (Some s) = (s \<noteq> [])"

text \<open>
  Slices \<open>s[:i]\<close> and \<open>s[i:]\<close> for any integer \<open>i\<close>: a negative index counts from the
  end, and an index out of range is clamped (a slice never raises).
\<close>

definition slice_index :: "'a list \<Rightarrow> int \<Rightarrow> nat" where
  "slice_index s i = (if i < 0 then nat (int (length s) + i) else min (nat i) (length s))"

definition slice_to :: "'a list \<Rightarrow> int \<Rightarrow> 'a list" where
  "slice_to s i = take (slice_index s i) s"

definition slice_from :: "'a list \<Rightarrow> int \<Rightarrow> 'a list" where
  "slice_from s i = drop (slice_index s i) s"

text \<open>\<open>str(n)\<close> of an integer: its decimal digits, with a minus sign when negative.\<close>

fun str_nat :: "nat \<Rightarrow> pystr" where
  "str_nat n = (if n < 10 then [48 + n] else str_nat (n div 10) @ [48 + n mod 10])"

definition str_int :: "int \<Rightarrow> pystr" where
  "str_int i = (if i < 0 then 45 # str_nat (nat (- i)) else str_nat (nat i))"

text \<open>\<open>x or d\<close> for an optional string \<open>x\<close>.\<close>

fun or_else :: "pystr option \<Rightarrow> pystr \<Rightarrow> pystr" where
  "or_else None d = d"
| "or_else (Some s) d = (if s = [] then d else s)"

text \<open>
  JSON scalars, as found in the data of an error response, with \<open>str\<close> and truth
  value as Python gives them.
\<close>

datatype json = JNone | JBool bool | JInt int | JStr pystr

fun json_str :: "json \<Rightarrow> pystr" where
  "json_str JNone = ustr ''None''"
| "json_str (JBool b) = (if b then ustr ''True'' else ustr ''False'')"
| "json_str (JInt i) = str_int i"
| "json_str (JStr s) = s"

fun json_truthy :: "json \<Rightarrow> bool" where
  "json_truthy JNone = False"
| "json_truthy (JBool b) = b"
| "json_truthy (JInt i) = (i \<noteq> 0)"
| "json_truthy (JStr s) = (s \<noteq> [])"

text \<open>
  The exceptions the program meets. \<open>ResponseError\<close> stands for an instance of that
  class, or of a subclass, that carries the \<open>data\<close> dictionary of the error response.
  Two subclasses of it are apart: \<open>RateLimitExceeded\<close>, which the program catches
  before \<open>ResponseError\<close>, and \<open>ResponseTypeError\<close>, which has no \<open>data\<close> attribute, so
  that reading \<open>e.data\<close> of one raises \<open>AttributeError\<close>. The three transport errors are
  the ones the download loop catches. \<open>OtherError\<close> is any exception outside these
  classes that no handler of the program names.
\<close>

datatype error =
    TypeError
  | AttributeError
  | IndexError
  | KeyError
  | ValueError
  | ClientPayloadError
  | ClientOSError
  | TimeoutError
  | ResponseTypeError
  | RateLimitExceeded
  | ResponseError "(pystr \<times> json) list"
  | OtherError pystr

section \<open>escape_markdown\<close>

text \<open>
  \<open>escape_markdown\<close> is only called with its defaults (\<open>as_needed = False\<close>,
  \<open>ignore_links = True\<close>): one \<open>re.sub\<close> over the text with the pattern
  \<^verbatim>\<open>(?:URL|STOCK)\<close> under \<open>re.MULTILINE\<close>, where a URL match is left as it is and
  any other match gets a backslash in front.

  The patterns use character classes, greedy repetition of a class, \<open>^\<close>, sequence
  and ordered alternative only, so a regular expression is a term of \<open>rx\<close>, and
  \<open>rx_match\<close> is the backtracking matcher in continuation style: an alternative
  tries its left branch with the whole rest of the pattern before its right one, and a
  greedy repetition tries one more character before it stops. The boolean passed
  along says whether the position is at the start of a line.
\<close>

datatype rx =
    Cls "nat \<Rightarrow> bool"
  | Many "nat \<Rightarrow> bool"
  | Bol
  | Eps
  | Seq rx rx
  | Alt rx rx

fun rx_match :: "rx \<Rightarrow> bool \<Rightarrow> pystr \<Rightarrow> (bool \<Rightarrow> pystr \<Rightarrow> 'a option) \<Rightarrow> 'a option" where
  "rx_match (Cls p) b [] k = None"
| "rx_match (Cls p) b (c # cs) k = (if p c then k (c = 10) cs else None)"
| "rx_match (Many p) b [] k = k b []"
| "rx_match (Many p) b (c # cs) k =
     (if p c then
        (case rx_match (Many p) (c = 10) cs k of
           Some r \<Rightarrow> Some r
         | None \<Rightarrow> k b (c # cs))
      else k b (c # cs))"
| "rx_match Bol b s k = (if b then k b s else None)"
| "rx_match Eps b s k = k b s"
| "rx_match (Seq r1 r2) b s k = rx_match r1 b s (\<lambda>b' s'. rx_match r2 b' s' k)"
| "rx_match (Alt r1 r2) b s k =
     (case rx_match r1 b s k of Some r \<Rightarrow> Some r | None \<Rightarrow> rx_match r2 b s k)"

text \<open>\<open>\s\<close> on a \<open>str\<close> pattern: the code points for which \<open>str.isspace\<close> holds.\<close>

definition isspace :: "nat \<Rightarrow> bool" where
  "isspace c \<longleftrightarrow>
     (9 \<le> c \<and> c \<le> 13) \<or> (28 \<le> c \<and> c \<le> 32) \<or> c = 133 \<or> c = 160 \<or> c = 5760 \<or>
     (8192 \<le> c \<and> c \<le> 8202) \<or> c = 8232 \<or> c = 8233 \<or> c = 8239 \<or> c = 8287 \<or>
     c = 12288"

definition rx_lit :: "string \<Rightarrow> rx" where
  "rx_lit s = foldr (\<lambda>c r. Seq (Cls (\<lambda>x. x = of_char c)) r) s Eps"

definition one_of :: "string \<Rightarrow> nat \<Rightarrow> bool" where
  "one_of s c \<longleftrightarrow> c \<in> set (ustr s)"

definition rx_plus :: "(nat \<Rightarrow> bool) \<Rightarrow> rx" where
  "rx_plus p = Seq (Cls p) (Many p)"

definition rx_opt :: "rx \<Rightarrow> rx" where
  "rx_opt r = Alt r Eps"

text \<open>
  \<^verbatim>\<open><[^: >]+:\/[^ >]+>|(?:https?|steam):\/\/[^\s<]+[^<.,:;\"\'\]\s]\<close>
\<close>

definition URL_REGEX :: rx where
  "URL_REGEX =
     Alt (Seq (rx_lit ''<'') (Seq (rx_plus (\<lambda>c. \<not> one_of '': >'' c))
            (Seq (rx_lit '':/'') (Seq (rx_plus (\<lambda>c. \<not> one_of '' >'' c)) (rx_lit ''>'')))))
         (Seq (Alt (Seq (rx_lit ''http'') (rx_opt (rx_lit ''s''))) (rx_lit ''steam''))
            (Seq (rx_lit ''://'') (Seq (rx_plus (\<lambda>c. \<not> (isspace c \<or> c = 60)))
               (Cls (\<lambda>c. \<not> (one_of ''<.,:;]'' c \<or> c = 34 \<or> c = 39 \<or> isspace c))))))"

text \<open>
  \<^verbatim>\<open>[_\\~|\*`]|^>(?:>>)?\s|\[.+\]\(.+\)|^#{1,3}|^\s*-\<close>; code point 92 is the
  backslash, 96 the backquote, and \<open>.\<close> is any code point but the newline.
\<close>

definition MARKDOWN_STOCK_REGEX :: rx where
  "MARKDOWN_STOCK_REGEX =
     Alt (Cls (\<lambda>c. one_of ''_~|*'' c \<or> c = 92 \<or> c = 96))
    (Alt (Seq Bol (Seq (rx_lit ''>'') (Seq (rx_opt (rx_lit ''>>'')) (Cls isspace))))
    (Alt (Seq (rx_lit ''['') (Seq (rx_plus (\<lambda>c. c \<noteq> 10)) (Seq (rx_lit ''](''
            ) (Seq (rx_plus (\<lambda>c. c \<noteq> 10)) (rx_lit '')'')))))
    (Alt (Seq Bol (Seq (rx_lit ''#'') (rx_opt (Seq (rx_lit ''#'') (rx_opt (rx_lit ''#''))))))
         (Seq Bol (Seq (Many isspace) (rx_lit ''-''))))))"

text \<open>
  One match attempt at a position: the URL alternative first, then the markdown one.
  The result is the replacement text, the line-start flag after the match and the rest
  of the input.
\<close>

definition match_here :: "bool \<Rightarrow> pystr \<Rightarrow> (pystr \<times> bool \<times> pystr) option" where
  "match_here b s =
     (case rx_match URL_REGEX b s (\<lambda>b' s'. Some (b', s')) of
        Some (b', s') \<Rightarrow> Some (take (length s - length s') s, b', s')
      | None \<Rightarrow>
          (case rx_match MARKDOWN_STOCK_REGEX b s (\<lambda>b' s'. Some (b', s')) of
             Some (b', s') \<Rightarrow> Some (92 # take (length s - length s') s, b', s')
           | None \<Rightarrow> None))"

text \<open>
  \<open>re.sub\<close>: scan from the left; at a match, emit the replacement and go on behind
  it; otherwise copy one code point. No alternative matches the empty string, so a
  match always consumes input; the scan also steps over one code point should a match
  not do that.
\<close>

function sub_scan :: "bool \<Rightarrow> pystr \<Rightarrow> pystr" where
  "sub_scan b [] = []"
| "sub_scan b (c # cs) =
     (case match_here b (c # cs) of
        Some (rep, b', s') \<Rightarrow>
          (if length s' < length (c # cs) then rep @ sub_scan b' s'
           else c # sub_scan (c = 10) cs)
      | None \<Rightarrow> c # sub_scan (c = 10) cs)"
  by pat_completeness auto
termination
  by (relation "measure (\<lambda>(b, s). length s)") auto

definition escape_markdown :: "pystr \<Rightarrow> pystr" where
  "escape_markdown text = sub_scan True text"

section \<open>The messages of the remote service\<close>

text \<open>
  The classes of \<open>maufbapi.types.graphql\<close> that the program reads, with the fields it
  reads. A field the program tests for truth before use is optional.
\<close>

record MessageRangeEntity =
  entity_id :: "pystr option"

record MessageRange =
  offset :: int
  range_length :: int
  entity :: "MessageRangeEntity option"

record MessageText =
  body_text :: pystr
  ranges :: "MessageRange list"

record MessageSender =
  sender_id :: pystr
  actor_name :: "pystr option"

record MinimalMessage =
  replied_message_id :: "pystr option"

record Reply =
  reply_message :: "MinimalMessage option"

record Reaction =
  reaction :: pystr

record MinimalSticker =
  sticker_id :: pystr

datatype AttachmentType = IMAGE | ANIMATED_IMAGE | AUDIO | VIDEO | FILE | UNKNOWN pystr

record Picture =
  uri :: pystr
  width :: int
  height :: int

record Dimensions =
  dim_x :: int
  dim_y :: int

record Attachment =
  typename :: AttachmentType
  attachment_id :: pystr
  attachment_fbid :: pystr
  filename :: pystr
  mimetype :: "pystr option"
  image_full_screen :: Picture
  original_dimensions :: Dimensions
  animated_image_full_screen :: Picture
  animated_image_original_dimensions :: Dimensions
  playable_url :: pystr
  attachment_video_url :: pystr

record Message =
  message_id :: pystr
  is_user_generated :: bool
  snippet :: pystr
  message_body :: "MessageText option"
  message_sender :: MessageSender
  timestamp :: int
  unsent_timestamp :: "int option"
  replied_to_message :: "Reply option"
  message_reactions :: "Reaction list"
  sticker :: "MinimalSticker option"
  blob_attachments :: "Attachment list"

section \<open>Write batches\<close>

text \<open>
  The \<open>result\<close> dictionaries put on the writer queue: every section is optional, and
  \<open>"key" in result\<close> is \<open>\<noteq> None\<close>. The rows are the tuples handed to the store.
\<close>

type_synonym user_row = "pystr \<times> pystr \<times> pystr"
type_synonym message_row = "pystr \<times> pystr \<times> int \<times> pystr \<times> int \<times> int option"
type_synonym replied_to_row = "pystr \<times> pystr"
type_synonym attachment_row =
  "pystr \<times> pystr \<times> pystr \<times> pystr \<times> pystr \<times> int option \<times> int option"
type_synonym reaction_row = "pystr \<times> pystr \<times> nat"

record batch =
  users :: "user_row list option"
  message :: "message_row option"
  replied_to :: "replied_to_row option"
  attachments :: "attachment_row list option"
  reactions :: "reaction_row list option"

definition empty_batch :: batch where
  "empty_batch =
     \<lparr>users = None, message = None, replied_to = None, attachments = None, reactions = None\<rparr>"

section \<open>convert_message\<close>

text \<open>
  \<open>itertools.groupby\<close>: one group per run of consecutive elements with equal keys, in
  the order of the input; the input is not sorted.
\<close>

function groupby :: "'a list \<Rightarrow> ('a \<Rightarrow> 'k) \<Rightarrow> ('k \<times> 'a list) list" where
  "groupby [] key = []"
| "groupby (x # xs) key =
     (key x, x # takeWhile (\<lambda>y. key y = key x) xs)
       # groupby (dropWhile (\<lambda>y. key y = key x) xs) key"
  by pat_completeness auto
termination
  by (relation "measure (\<lambda>(xs, key). length xs)")
     (auto simp: length_dropWhile_le less_Suc_eq_le)

text \<open>
  \<open>utf16_surrogate\<close> comes from the \<open>mautrix\<close> library, so its two functions are
  parameters of the conversion.
\<close>

record utf16_surrogate =
  add :: "pystr \<Rightarrow> pystr"
  remove :: "pystr \<Rightarrow> pystr"

text \<open>
  One round of the loop over the ranges: a range without an entity, or whose entity has
  no id, is skipped; otherwise the text becomes \<open>msg_text[:offset]\<close>, then the
  token (the id between \<open><\<close>\<open>@\<close> and \<open>>\<close>), then \<open>msg_text[offset + leng:]\<close>.
\<close>

definition mention_token :: "pystr \<Rightarrow> pystr" where
  "mention_token i = ustr ''<@'' @ i @ ustr ''>''"

definition mention_id :: "MessageRange \<Rightarrow> pystr option" where
  "mention_id m =
     (case entity m of
        None \<Rightarrow> None
      | Some e \<Rightarrow>
          (case entity_id e of
             None \<Rightarrow> None
           | Some i \<Rightarrow> if i = [] then None else Some i))"

definition substitute_mention :: "pystr \<Rightarrow> MessageRange \<Rightarrow> pystr" where
  "substitute_mention msg_text m =
     (case mention_id m of
        None \<Rightarrow> msg_text
      | Some i \<Rightarrow>
          slice_to msg_text (offset m) @ mention_token i
            @ slice_from msg_text (offset m + range_length m))"

definition substitute_mentions :: "pystr \<Rightarrow> MessageRange list \<Rightarrow> pystr" where
  "substitute_mentions msg_text rs = foldl substitute_mention msg_text (rev rs)"

definition convert_text :: "utf16_surrogate \<Rightarrow> Message \<Rightarrow> pystr" where
  "convert_text u16 m =
     (if \<not> is_user_generated m then ustr ''*'' @ snippet m @ ustr ''*''
      else case message_body m of
             None \<Rightarrow> []
           | Some b \<Rightarrow>
               escape_markdown (remove u16 (substitute_mentions (add u16 (body_text b)) (ranges b))))"

definition convert_replied_to :: "Message \<Rightarrow> replied_to_row option" where
  "convert_replied_to m =
     (case replied_to_message m of
        None \<Rightarrow> None
      | Some r \<Rightarrow>
          (case reply_message r of
             None \<Rightarrow> None
           | Some mm \<Rightarrow>
               (case replied_message_id mm of
                  None \<Rightarrow> None
                | Some replied_to_id \<Rightarrow>
                    if replied_to_id = [] then None else Some (message_id m, replied_to_id))))"

definition convert_reactions :: "Message \<Rightarrow> reaction_row list option" where
  "convert_reactions m =
     (if length (message_reactions m) > 0
      then Some (map (\<lambda>(r, group). (message_id m, r, length group))
                  (groupby (message_reactions m) reaction))
      else None)"

definition convert_message :: "utf16_surrogate \<Rightarrow> Message \<Rightarrow> int \<Rightarrow> batch" where
  "convert_message u16 m thread_id =
     \<lparr>users = Some [(sender_id (message_sender m),
                     or_else (actor_name (message_sender m)) (ustr ''Facebook user''),
                     [])],
      message = Some (message_id m, sender_id (message_sender m), thread_id,
                      convert_text u16 m, timestamp m, unsent_timestamp m),
      replied_to = convert_replied_to m,
      attachments = None,
      reactions = convert_reactions m\<rparr>"

section \<open>reupload_fb_file\<close>

text \<open>
  The network is a set of oracles. The \<open>n\<close>-th GET of a download and the \<open>n\<close>-th POST
  of an upload (counted from 0) each have an outcome: an exception, or a response. A
  GET response gives the parsed \<open>Content-Length\<close> header (\<open>None\<close> when the header is
  missing, which is a \<open>KeyError\<close>) and what \<open>resp.read()\<close> does.
\<close>

type_synonym bytes = "nat list"

datatype get_outcome =
    Get_raises error
  | Get_response "int option" "error + bytes"

record upload_json =
  json_attachments :: "(pystr \<times> pystr) list option"
  json_has_retry_after :: bool

datatype post_body = Not_json | Json_raises error | Json upload_json

datatype post_outcome =
    Post_raises error
  | Post_response "pystr \<Rightarrow> pystr option" post_body

record Sticker =
  full_sticker_id :: pystr
  animated_image :: "Picture option"
  thread_image :: Picture

record ThreadInfo =
  thread_key_id :: "int option"
  thread_name :: "pystr option"
  messages_count :: int

text \<open>The arguments of one \<open>fetch_messages\<close> call, as the program passes them.\<close>

record fetch_request =
  req_thread_id :: int
  req_before_time_ms :: int
  req_msg_count :: int

record AndroidAPI =
  client_id :: pystr
  fetch_thread_info :: "int \<Rightarrow> error + ThreadInfo list option"
  fetch_messages :: "fetch_request \<Rightarrow> nat \<Rightarrow> error + Message list"
  raw_http_get :: "pystr \<Rightarrow> pystr \<Rightarrow> nat \<Rightarrow> get_outcome"
  http_post :: "pystr \<Rightarrow> pystr \<Rightarrow> bytes \<Rightarrow> nat \<Rightarrow> post_outcome"
  fetch_stickers :: "pystr \<Rightarrow> error + Sticker list"
  get_image_url :: "pystr \<Rightarrow> pystr \<Rightarrow> error + pystr option"
  get_file_url :: "int \<Rightarrow> pystr \<Rightarrow> pystr \<Rightarrow> error + pystr"

text \<open>
  What the program takes from the Python runtime: \<open>float\<close> of a string (\<open>None\<close> is a
  \<open>ValueError\<close>), the UTC clock at the \<open>n\<close>-th response of an upload, in seconds,
  \<open>mimetypes.guess_extension\<close>, the \<open>k\<close>-th draw of \<open>random.choice\<close>, and, of the
  exceptions raised by tasks that run together, which one comes first. Floats are
  idealised as reals.
\<close>

record runtime =
  pyfloat :: "pystr \<Rightarrow> real option"
  now :: "nat \<Rightarrow> real"
  guess_extension :: "pystr \<Rightarrow> pystr option"
  random_choice :: "nat \<Rightarrow> pystr list \<Rightarrow> pystr"
  first_raised :: "error list \<Rightarrow> nat"

text \<open>What a call does besides returning: its requests and its sleeps, in order.\<close>

datatype event = Get pystr pystr | Post pystr | Sleep real

definition parse_ratelimit_header ::
  "runtime \<Rightarrow> real \<Rightarrow> (pystr \<Rightarrow> pystr option) \<Rightarrow> bool \<Rightarrow> error + real" where
  "parse_ratelimit_header rt clock headers use_clock =
     (let reset = headers (ustr ''X-Ratelimit-Reset'');
          reset_after = headers (ustr ''X-Ratelimit-Reset-After'')
      in if \<not> truthy reset then Inr 60
         else if use_clock \<or> \<not> truthy reset_after then
           (case pyfloat rt (or_else reset []) of
              None \<Rightarrow> Inl ValueError
            | Some r \<Rightarrow> Inr (r - clock))
         else
           (case pyfloat rt (or_else reset_after []) of
              None \<Rightarrow> Inl ValueError
            | Some r \<Rightarrow> Inr r))"

definition is_transport_error :: "error \<Rightarrow> bool" where
  "is_transport_error e \<longleftrightarrow> e = ClientPayloadError \<or> e = ClientOSError \<or> e = TimeoutError"

text \<open>
  The download loop. The result is the exception that leaves the function, \<open>None\<close> for
  \<open>return None\<close>, or the bytes read.
\<close>

function download ::
  "AndroidAPI \<Rightarrow> pystr \<Rightarrow> pystr \<Rightarrow> nat \<Rightarrow> event list \<Rightarrow> (error + bytes option) \<times> event list" where
  "download client url referer attempts evs =
     (if attempts > 10 then (Inr None, evs)
      else
        (case raw_http_get client url referer attempts of
           Get_raises e \<Rightarrow>
             if is_transport_error e
             then download client url referer (attempts + 1)
                    (evs @ [Get url referer, Sleep (2 ^ attempts)])
             else (Inl e, evs @ [Get url referer])
         | Get_response len body \<Rightarrow>
             (case len of
                None \<Rightarrow> (Inl KeyError, evs @ [Get url referer])
              | Some n \<Rightarrow>
                  if n > 25000000 then (Inr None, evs @ [Get url referer])
                  else
                    (case body of
                       Inl e \<Rightarrow>
                         if is_transport_error e
                         then download client url referer (attempts + 1)
                                (evs @ [Get url referer, Sleep (2 ^ attempts)])
                         else (Inl e, evs @ [Get url referer])
                     | Inr attachment_data \<Rightarrow>
                         (Inr (Some attachment_data), evs @ [Get url referer])))))"
  by pat_completeness auto
termination
  by (relation "measure (\<lambda>(client, url, referer, attempts, evs). 11 - attempts)") auto

text \<open>
  The upload loop has no bound: the result is \<open>None\<close> when it never returns.
\<close>

partial_function (option) upload ::
  "AndroidAPI \<Rightarrow> runtime \<Rightarrow> pystr \<Rightarrow> pystr \<Rightarrow> bytes \<Rightarrow> nat \<Rightarrow> event list
     \<Rightarrow> ((error + (pystr \<times> pystr) option) \<times> event list) option" where
  "upload client rt webhook_url fname attachment_data n evs =
     (case http_post client webhook_url fname attachment_data n of
        Post_raises e \<Rightarrow> Some (Inl e, evs @ [Post webhook_url])
      | Post_response headers body \<Rightarrow>
          (case parse_ratelimit_header rt (now rt n) headers False of
             Inl e \<Rightarrow> Some (Inl e, evs @ [Post webhook_url])
           | Inr reset_after \<Rightarrow>
               (case body of
                  Not_json \<Rightarrow>
                    upload client rt webhook_url fname attachment_data (n + 1)
                      (evs @ [Post webhook_url, Sleep reset_after])
                | Json_raises e \<Rightarrow> Some (Inl e, evs @ [Post webhook_url])
                | Json d \<Rightarrow>
                    (case json_attachments d of
                       None \<Rightarrow>
                         if json_has_retry_after d
                         then upload client rt webhook_url fname attachment_data (n + 1)
                                (evs @ [Post webhook_url, Sleep reset_after])
                         else Some (Inr None, evs @ [Post webhook_url])
                     | Some [] \<Rightarrow> Some (Inl IndexError, evs @ [Post webhook_url])
                     | Some (a # _) \<Rightarrow> Some (Inr (Some a), evs @ [Post webhook_url])))))"

definition referer_header :: "AndroidAPI \<Rightarrow> pystr \<Rightarrow> pystr" where
  "referer_header client referer = ustr ''fbapp://'' @ client_id client @ ustr ''/'' @ referer"

definition reupload_fb_file ::
  "AndroidAPI \<Rightarrow> runtime \<Rightarrow> pystr \<Rightarrow> pystr \<Rightarrow> pystr \<Rightarrow> pystr
     \<Rightarrow> ((error + (pystr \<times> pystr) option) \<times> event list) option" where
  "reupload_fb_file client rt url fname webhook_url referer =
     (case download client url (referer_header client referer) 0 [] of
        (Inl e, evs) \<Rightarrow> Some (Inl e, evs)
      | (Inr None, evs) \<Rightarrow> Some (Inr None, evs)
      | (Inr (Some attachment_data), evs) \<Rightarrow>
          upload client rt webhook_url fname attachment_data 0 evs)"

section \<open>convert_sticker and convert_attachment\<close>

text \<open>
  Both return a dictionary or \<open>None\<close>, or raise; a call whose upload never returns has
  no result (the outer \<open>None\<close>).
\<close>

record converted_sticker =
  cs_url :: pystr
  cs_name :: pystr
  cs_width :: int
  cs_height :: int

record converted_attachment =
  ca_url :: pystr
  ca_name :: pystr
  ca_type :: pystr
  ca_id :: pystr

definition convert_sticker ::
  "AndroidAPI \<Rightarrow> runtime \<Rightarrow> MinimalSticker \<Rightarrow> pystr \<Rightarrow> (error + converted_sticker option) option"
  where
  "convert_sticker client rt st webhook_url =
     (case fetch_stickers client (sticker_id st) of
        Inl e \<Rightarrow> if e = ResponseTypeError then Some (Inr None) else Some (Inl e)
      | Inr [] \<Rightarrow> Some (Inl IndexError)
      | Inr (node # _) \<Rightarrow>
          (let (image, extension) =
                 (case animated_image node of
                    Some im \<Rightarrow> (im, ustr ''gif'')
                  | None \<Rightarrow> (thread_image node, ustr ''png''))
           in case reupload_fb_file client rt (uri image)
                     (ustr ''sticker-'' @ full_sticker_id node @ ustr ''.'' @ extension)
                     webhook_url [] of
                None \<Rightarrow> None
              | Some (Inl e, _) \<Rightarrow> Some (Inl e)
              | Some (Inr None, _) \<Rightarrow> Some (Inr None)
              | Some (Inr (Some reuploaded_url), _) \<Rightarrow>
                  Some (Inr (Some \<lparr>cs_url = snd reuploaded_url, cs_name = fst reuploaded_url,
                                    cs_width = width image, cs_height = height image\<rparr>))))"

text \<open>
  The file name: \<^verbatim>\<open>filename += mimetypes.guess_extension(attachment.mimetype)\<close> when
  the media type is truthy and the name has no dot (code point 46). Adding \<open>None\<close> to a
  string is a \<open>TypeError\<close>.
\<close>

definition attachment_filename :: "runtime \<Rightarrow> Attachment \<Rightarrow> error + pystr" where
  "attachment_filename rt attachment =
     (case mimetype attachment of
        None \<Rightarrow> Inr (filename attachment)
      | Some mt \<Rightarrow>
          if mt \<noteq> [] \<and> 46 \<notin> set (filename attachment) then
            (case guess_extension rt mt of
               None \<Rightarrow> Inl TypeError
             | Some ext \<Rightarrow> Inr (filename attachment @ ext))
          else Inr (filename attachment))"

text \<open>
  The branch on the type: the URL to download, the row's type and the referer, or
  \<open>None\<close> for an unsupported type. Tuples compare lexicographically.
\<close>

definition image_source ::
  "AndroidAPI \<Rightarrow> pystr \<Rightarrow> Attachment \<Rightarrow> Picture \<Rightarrow> Dimensions \<Rightarrow> error + pystr" where
  "image_source client msg_id attachment full_screen dims =
     (if dim_x dims > width full_screen
         \<or> (dim_x dims = width full_screen \<and> dim_y dims > height full_screen)
      then (case get_image_url client msg_id (attachment_fbid attachment) of
              Inl e \<Rightarrow> Inl e
            | Inr u \<Rightarrow> Inr (or_else u (uri full_screen)))
      else Inr (uri full_screen))"

definition attachment_source ::
  "AndroidAPI \<Rightarrow> Attachment \<Rightarrow> int \<Rightarrow> pystr \<Rightarrow> error + (pystr \<times> pystr \<times> pystr) option" where
  "attachment_source client attachment thread_id msg_id =
     (case typename attachment of
        IMAGE \<Rightarrow>
          (case image_source client msg_id attachment (image_full_screen attachment)
                  (original_dimensions attachment) of
             Inl e \<Rightarrow> Inl e
           | Inr url \<Rightarrow> Inr (Some (url, ustr ''image'', ustr ''messenger_thread_photo'')))
      | ANIMATED_IMAGE \<Rightarrow>
          (case image_source client msg_id attachment (animated_image_full_screen attachment)
                  (animated_image_original_dimensions attachment) of
             Inl e \<Rightarrow> Inl e
           | Inr url \<Rightarrow> Inr (Some (url, ustr ''gif'', ustr ''messenger_thread_photo'')))
      | AUDIO \<Rightarrow> Inr (Some (playable_url attachment, ustr ''audioclip'', ustr ''unknown''))
      | VIDEO \<Rightarrow> Inr (Some (attachment_video_url attachment, ustr ''video'', ustr ''unknown''))
      | FILE \<Rightarrow>
          (case get_file_url client thread_id msg_id (attachment_fbid attachment) of
             Inl e \<Rightarrow> Inl e
           | Inr url \<Rightarrow> Inr (Some (url, ustr ''file'', ustr ''unknown'')))
      | UNKNOWN _ \<Rightarrow> Inr None)"

definition convert_attachment ::
  "AndroidAPI \<Rightarrow> runtime \<Rightarrow> Attachment \<Rightarrow> pystr \<Rightarrow> int \<Rightarrow> pystr
     \<Rightarrow> (error + converted_attachment option) option" where
  "convert_attachment client rt attachment webhook_url thread_id msg_id =
     (case attachment_filename rt attachment of
        Inl e \<Rightarrow> Some (Inl e)
      | Inr fname \<Rightarrow>
          (case attachment_source client attachment thread_id msg_id of
             Inl e \<Rightarrow> Some (Inl e)
           | Inr None \<Rightarrow> Some (Inr None)
           | Inr (Some (url, attachment_type, referer)) \<Rightarrow>
               (case reupload_fb_file client rt url fname webhook_url referer of
                  None \<Rightarrow> None
                | Some (Inl e, _) \<Rightarrow> Some (Inl e)
                | Some (Inr None, _) \<Rightarrow> Some (Inr None)
                | Some (Inr (Some reuploaded_url), _) \<Rightarrow>
                    Some (Inr (Some \<lparr>ca_url = snd reuploaded_url, ca_name = fst reuploaded_url,
                                      ca_type = attachment_type,
                                      ca_id = attachment_id attachment\<rparr>)))))"

section \<open>attachment_worker\<close>

text \<open>
  One round of the worker's loop, for the message taken from its queue: the result is
  the batch put on the writer queue, or the exception that ends the worker.

  \<open>asyncio.gather\<close> runs the conversions together. When some of them raise, it raises
  the exception that comes first in time, whatever the others do: which one that is
  the runtime decides (\<open>first_raised\<close>, an index into the exceptions raised, in the order
  of the list). When none raises, it returns the results in the order of the list, or
  never returns when one of the conversions never does.
\<close>

definition gather :: "runtime \<Rightarrow> (error + 'a) option list \<Rightarrow> (error + 'a list) option" where
  "gather rt rs =
     (let raised = List.map_filter (\<lambda>r. case r of Some (Inl e) \<Rightarrow> Some e | _ \<Rightarrow> None) rs
      in if raised \<noteq> [] then Some (Inl (raised ! (first_raised rt raised mod length raised)))
         else if None \<in> set rs then None
         else Some (Inr (List.map_filter
                           (\<lambda>r. case r of Some (Inr v) \<Rightarrow> Some v | _ \<Rightarrow> None) rs)))"

definition sticker_rows ::
  "AndroidAPI \<Rightarrow> runtime \<Rightarrow> pystr list \<Rightarrow> pystr list \<Rightarrow> Message
     \<Rightarrow> (error + attachment_row list option) option" where
  "sticker_rows client rt webhook_urls fetched_attachment_ids m =
     (case sticker m of
        None \<Rightarrow> Some (Inr None)
      | Some st \<Rightarrow>
          if sticker_id st \<in> set fetched_attachment_ids then Some (Inr None)
          else
            (case convert_sticker client rt st (random_choice rt 0 webhook_urls) of
               None \<Rightarrow> None
             | Some (Inl e) \<Rightarrow> Some (Inl e)
             | Some (Inr None) \<Rightarrow> Some (Inl TypeError)
             | Some (Inr (Some c)) \<Rightarrow>
                 Some (Inr (Some [(sticker_id st, message_id m, cs_name c, ustr ''sticker'',
                                   cs_url c, Some (cs_width c), Some (cs_height c))]))))"

definition blob_row :: "Message \<Rightarrow> converted_attachment \<Rightarrow> attachment_row" where
  "blob_row m a = (ca_id a, message_id m, ca_name a, ca_type a, ca_url a, None, None)"

definition blob_rows ::
  "AndroidAPI \<Rightarrow> runtime \<Rightarrow> int \<Rightarrow> pystr list \<Rightarrow> pystr list \<Rightarrow> Message
     \<Rightarrow> (error + attachment_row list) option" where
  "blob_rows client rt thread_id webhook_urls fetched_attachment_ids m =
     (let todo = filter (\<lambda>a. attachment_id a \<notin> set fetched_attachment_ids) (blob_attachments m)
      in case gather rt (map (\<lambda>(k, a). convert_attachment client rt a
                                      (random_choice rt (Suc k) webhook_urls) thread_id
                                      (message_id m))
                        (enumerate 0 todo)) of
           None \<Rightarrow> None
         | Some (Inl e) \<Rightarrow> Some (Inl e)
         | Some (Inr converted) \<Rightarrow>
             Some (Inr (map (blob_row m) (List.map_filter (\<lambda>c. c) converted))))"

definition attachment_worker ::
  "AndroidAPI \<Rightarrow> runtime \<Rightarrow> int \<Rightarrow> pystr list \<Rightarrow> pystr list \<Rightarrow> Message
     \<Rightarrow> (error + batch) option" where
  "attachment_worker client rt thread_id webhook_urls fetched_attachment_ids m =
     (case sticker_rows client rt webhook_urls fetched_attachment_ids m of
        None \<Rightarrow> None
      | Some (Inl e) \<Rightarrow> Some (Inl e)
      | Some (Inr from_sticker) \<Rightarrow>
          if length (blob_attachments m) > 0 then
            (case blob_rows client rt thread_id webhook_urls fetched_attachment_ids m of
               None \<Rightarrow> None
             | Some (Inl e) \<Rightarrow> Some (Inl e)
             | Some (Inr rows) \<Rightarrow>
                 Some (Inr (empty_batch\<lparr>attachments :=
                              Some ((case from_sticker of None \<Rightarrow> [] | Some r \<Rightarrow> r) @ rows)\<rparr>)))
          else Some (Inr (empty_batch\<lparr>attachments := from_sticker\<rparr>)))"

section \<open>execute\<close>

text \<open>
  The command line: \<open>--id\<close>, \<open>--webhook\<close>, \<open>--messages-per-fetch\<close> (default 95) and
  \<open>--latest\<close>.
\<close>

record args =
  arg_id :: "int list"
  webhook :: "pystr list"
  messages_per_fetch :: int
  latest :: bool

text \<open>
  What \<open>execute\<close> reads from and writes to the store before the loop: the channel
  rows, the stored message rows and the ids of the stored attachments.
\<close>

record store =
  channels :: "(int \<times> pystr) list"
  stored_messages :: "message_row list"
  stored_attachment_ids :: "pystr list"

text \<open>
  \<^verbatim>\<open>INSERT INTO channels (id, name) VALUES (?, ?) ON CONFLICT DO UPDATE SET name=excluded.name\<close>
\<close>

definition upsert_channel :: "int \<times> pystr \<Rightarrow> (int \<times> pystr) list \<Rightarrow> (int \<times> pystr) list" where
  "upsert_channel row rows =
     (if fst row \<in> fst ` set rows
      then map (\<lambda>r. if fst r = fst row then row else r) rows
      else rows @ [row])"

text \<open>
  The start of one round of \<open>for thread_id in args.id\<close>, up to the loop: the ids the
  rest of the round works with, or \<open>None\<close> when the channel is skipped (\<open>continue\<close>).
  The rows of the participants, written in between, carry no channel id and are left
  out.
\<close>

record channel =
  thread_id :: int
  real_thread_id :: int
  fetched_message_ids :: "pystr list"
  fetched_attachment_ids :: "pystr list"
  uploading :: bool

definition open_channel ::
  "args \<Rightarrow> store \<Rightarrow> int \<Rightarrow> ThreadInfo list option \<Rightarrow> (channel \<times> store) option" where
  "open_channel a db tid thread_info =
     (case thread_info of
        None \<Rightarrow> None
      | Some [] \<Rightarrow> None
      | Some (info # _) \<Rightarrow>
          (case (if thread_key_id info \<noteq> Some tid then thread_key_id info else Some tid) of
             None \<Rightarrow> None
           | Some real_id \<Rightarrow>
               Some (\<lparr>thread_id = tid,
                      real_thread_id = real_id,
                      fetched_message_ids =
                        map fst (filter (\<lambda>(i, s, c, r). c = real_id) (stored_messages db)),
                      fetched_attachment_ids =
                        (if length (webhook a) > 0 then stored_attachment_ids db else []),
                      uploading = (length (webhook a) > 0)\<rparr>,
                     db\<lparr>channels :=
                          upsert_channel (real_id, or_else (thread_name info) (ustr ''No name''))
                            (channels db)\<rparr>)))"

text \<open>
  The state of the loop \<open>while backfill_more\<close>: the cursor, the two queues (what was
  put on them, in order), the sleeps and the requests made.
\<close>

record backfill =
  before_time_ms :: int
  db_queue :: "batch list"
  attachment_queue :: "Message list"
  sleeps :: "event list"
  requests :: "fetch_request list"

definition fetch_messages_request :: "args \<Rightarrow> channel \<Rightarrow> backfill \<Rightarrow> fetch_request" where
  "fetch_messages_request a ch st =
     \<lparr>req_thread_id = thread_id ch, req_before_time_ms = before_time_ms st,
      req_msg_count = 95\<rparr>"

text \<open>
  \<^verbatim>\<open>code = e.data.get("code", "")\<close>,
  \<^verbatim>\<open>subcode = e.data.get("subcode") or e.data.get("error_subcode")\<close>,
  \<^verbatim>\<open>code_str = f"{code}.{subcode}" if subcode else str(code)\<close>
\<close>

definition data_get :: "(pystr \<times> json) list \<Rightarrow> string \<Rightarrow> json \<Rightarrow> json" where
  "data_get data k d = (case map_of data (ustr k) of None \<Rightarrow> d | Some v \<Rightarrow> v)"

definition code_str :: "(pystr \<times> json) list \<Rightarrow> pystr" where
  "code_str data =
     (let code = data_get data ''code'' (JStr []);
          subcode = (if json_truthy (data_get data ''subcode'' JNone)
                     then data_get data ''subcode'' JNone
                     else data_get data ''error_subcode'' JNone)
      in if json_truthy subcode then json_str code @ ustr ''.'' @ json_str subcode
         else json_str code)"

definition enqueue_message :: "utf16_surrogate \<Rightarrow> channel \<Rightarrow> backfill \<Rightarrow> Message \<Rightarrow> backfill" where
  "enqueue_message u16 ch st m =
     (let st1 = (if message_id m \<notin> set (fetched_message_ids ch)
                 then st\<lparr>db_queue := db_queue st @ [convert_message u16 m (real_thread_id ch)]\<rparr>
                 else st)
      in if uploading ch then st1\<lparr>attachment_queue := attachment_queue st1 @ [m]\<rparr> else st1)"

text \<open>
  One round of the loop, given what \<open>fetch_messages\<close> did. The handlers are tried in
  the order of the source: \<open>except RateLimitExceeded\<close>, then \<open>except ResponseError as e\<close>,
  which also catches a \<open>ResponseTypeError\<close> and fails on its \<open>e.data\<close>; an exception
  raised in a handler, like one that no handler catches, leaves the loop.
\<close>

datatype step = Continue backfill | Exhausted backfill | Raised error backfill

definition rate_limited :: "backfill \<Rightarrow> step" where
  "rate_limited st = Continue (st\<lparr>sleeps := sleeps st @ [Sleep 300]\<rparr>)"

definition backfill_step ::
  "utf16_surrogate \<Rightarrow> channel \<Rightarrow> error + Message list \<Rightarrow> backfill \<Rightarrow> step" where
  "backfill_step u16 ch resp st =
     (case resp of
        Inl RateLimitExceeded \<Rightarrow> rate_limited st
      | Inl (ResponseError data) \<Rightarrow>
          if code_str data \<noteq> ustr ''1675004'' then Raised (ResponseError data) st
          else rate_limited st
      | Inl ResponseTypeError \<Rightarrow> Raised AttributeError st
      | Inl e \<Rightarrow> Raised e st
      | Inr [] \<Rightarrow> Exhausted st
      | Inr (m0 # ms) \<Rightarrow>
          Continue ((foldl (enqueue_message u16 ch) st (m0 # ms))
                      \<lparr>before_time_ms := timestamp m0 - 1\<rparr>))"

text \<open>
  The loop itself; the \<open>n\<close>-th call of \<open>fetch_messages\<close> is answered by the oracle.
  The result is \<open>None\<close> when the loop never ends.
\<close>

partial_function (option) backfill_loop ::
  "utf16_surrogate \<Rightarrow> AndroidAPI \<Rightarrow> args \<Rightarrow> channel \<Rightarrow> nat \<Rightarrow> backfill \<Rightarrow> (error + backfill) option"
  where
  "backfill_loop u16 api a ch n st =
     (let req = fetch_messages_request a ch st
      in case backfill_step u16 ch (fetch_messages api req n)
                (st\<lparr>requests := requests st @ [req]\<rparr>) of
           Continue st' \<Rightarrow> backfill_loop u16 api a ch (n + 1) st'
         | Exhausted st' \<Rightarrow> Some (Inr st')
         | Raised e st' \<Rightarrow> Some (Inl e))"

definition start_backfill :: "int \<Rightarrow> backfill" where
  "start_backfill now_ms =
     \<lparr>before_time_ms = now_ms, db_queue = [], attachment_queue = [], sleeps = [],
      requests = []\<rparr>"

section \<open>Instances for the examples\<close>

text \<open>
  The UTF-16 surrogate coding, as an instance of the two library functions: \<open>add\<close>
  splits a code point above the basic plane into its surrogate pair, \<open>remove\<close> joins
  a high surrogate and the low surrogate behind it.
\<close>

definition utf16_add :: "pystr \<Rightarrow> pystr" where
  "utf16_add s =
     concat (map (\<lambda>c. if 65536 \<le> c \<and> c \<le> 1114111
                        then [55296 + (c - 65536) div 1024, 56320 + (c - 65536) mod 1024]
                        else [c]) s)"

fun utf16_remove :: "pystr \<Rightarrow> pystr" where
  "utf16_remove (h # l # s) =
     (if 55296 \<le> h \<and> h \<le> 56319 \<and> 56320 \<le> l \<and> l \<le> 57343
      then (65536 + (h - 55296) * 1024 + (l - 56320)) # utf16_remove s
      else h # utf16_remove (l # s))"
| "utf16_remove s = s"

definition utf16 :: utf16_surrogate where
  "utf16 = \<lparr>add = utf16_add, remove = utf16_remove\<rparr>"

text \<open>A client without a network: every call raises.\<close>

definition offline :: AndroidAPI where
  "offline =
     \<lparr>client_id = [],
      fetch_thread_info = (\<lambda>_. Inl ClientOSError),
      fetch_messages = (\<lambda>_ _. Inl ClientOSError),
      raw_http_get = (\<lambda>_ _ _. Get_raises ClientOSError),
      http_post = (\<lambda>_ _ _ _. Post_raises ClientOSError),
      fetch_stickers = (\<lambda>_. Inl ClientOSError),
      get_image_url = (\<lambda>_ _. Inl ClientOSError),
      get_file_url = (\<lambda>_ _ _. Inl ClientOSError)\<rparr>"


text \<open>A command line without webhooks, and a channel whose two ids agree.\<close>

definition cli :: args where
  "cli = \<lparr>arg_id = [1], webhook = [], messages_per_fetch = 95, latest = False\<rparr>"

definition channel_1 :: channel where
  "channel_1 =
     \<lparr>thread_id = 1, real_thread_id = 1, fetched_message_ids = [],
      fetched_attachment_ids = [], uploading = False\<rparr>"

text \<open>
  A runtime for the examples: \<open>float\<close> reads a string of decimal digits, the clock
  stands at 0, no extension is known for any media type, \<open>random.choice\<close> takes the
  first element, and of several exceptions the first in the list comes first.
\<close>

definition float_of_digits :: "pystr \<Rightarrow> real option" where
  "float_of_digits s =
     (if s \<noteq> [] \<and> (\<forall>c \<in> set s. 48 \<le> c \<and> c \<le> 57)
      then Some (foldl (\<lambda>acc c. 10 * acc + real (c - 48)) 0 s)
      else None)"

definition plain_runtime :: runtime where
  "plain_runtime =
     \<lparr>pyfloat = float_of_digits,
      now = (\<lambda>_. 0),
      guess_extension = (\<lambda>_. None),
      random_choice = (\<lambda>_ urls. case urls of [] \<Rightarrow> [] | u # _ \<Rightarrow> u),
      first_raised = (\<lambda>_. 0)\<rparr>"

text \<open>An image without a dot in its name, of a media type no table knows.\<close>

definition no_picture :: Picture where
  "no_picture = \<lparr>uri = [], width = 0, height = 0\<rparr>"

definition photo :: Attachment where
  "photo =
     \<lparr>typename = IMAGE,
      attachment_id = ustr ''a1'',
      attachment_fbid = ustr ''77'',
      filename = ustr ''photo'',
      mimetype = Some (ustr ''image/x-unheard-of''),
      image_full_screen = \<lparr>uri = ustr ''https://cdn/photo'', width = 640, height = 480\<rparr>,
      original_dimensions = \<lparr>dim_x = 640, dim_y = 480\<rparr>,
      animated_image_full_screen = no_picture,
      animated_image_original_dimensions = \<lparr>dim_x = 0, dim_y = 0\<rparr>,
      playable_url = [],
      attachment_video_url = []\<rparr>"

text \<open>
  A download attempt that fails with a transport-level error: the request or the read
  of the body raises one of the three errors the loop catches.
\<close>

fun transport_failure :: "get_outcome \<Rightarrow> bool" where
  "transport_failure (Get_raises e) = is_transport_error e"
| "transport_failure (Get_response len body) =
     (case len of
        None \<Rightarrow> False
      | Some n \<Rightarrow> n \<le> 25000000 \<and> (case body of Inl e \<Rightarrow> is_transport_error e | Inr _ \<Rightarrow> False))"

text \<open>The sleeps among the events of a call, in order.\<close>

fun sleeps_of :: "event list \<Rightarrow> real list" where
  "sleeps_of [] = []"
| "sleeps_of (Sleep d # evs) = d # sleeps_of evs"
| "sleeps_of (ev # evs) = sleeps_of evs"

fun gets_of :: "event list \<Rightarrow> nat" where
  "gets_of [] = 0"
| "gets_of (Get url referer # evs) = Suc (gets_of evs)"
| "gets_of (ev # evs) = gets_of evs"

fun posts_of :: "event list \<Rightarrow> nat" where
  "posts_of [] = 0"
| "posts_of (Post url # evs) = Suc (posts_of evs)"
| "posts_of (ev # evs) = posts_of evs"

text \<open>A host whose every download breaks off while the body is read.\<close>

definition truncating :: AndroidAPI where
  "truncating =
     offline\<lparr>raw_http_get := (\<lambda>_ _ _. Get_response (Some 10) (Inl ClientPayloadError))\<rparr>"

text \<open>A plain message without a body, sent at the given time.\<close>

definition note_at :: "int \<Rightarrow> Message" where
  "note_at ts =
     \<lparr>message_id = ustr ''mid.1'',
      is_user_generated = True,
      snippet = [],
      message_body = None,
      message_sender = \<lparr>sender_id = ustr ''100'', actor_name = None\<rparr>,
      timestamp = ts,
      unsent_timestamp = None,
      replied_to_message = None,
      message_reactions = [],
      sticker = None,
      blob_attachments = []\<rparr>"

text \<open>
  A source that does not honour the cursor: every page holds one message, stamped one
  millisecond after the cursor of the request.
\<close>

definition stuck :: AndroidAPI where
  "stuck = offline\<lparr>fetch_messages := (\<lambda>req n. Inr [note_at (req_before_time_ms req + 1)])\<rparr>"

text \<open>A source with one message, found by the first fetch.\<close>

definition one_page :: AndroidAPI where
  "one_page = offline\<lparr>fetch_messages := (\<lambda>req n. if n = 0 then Inr [note_at 900] else Inr [])\<rparr>"

section \<open>Mention ranges, as the specification words them\<close>

text \<open>
  Three notions the claim about mentions uses, written from its words and not from
  the program. Ranges are in order when each starts at or after the end of the one
  before, has a length that is not negative, and ends inside the text.
\<close>

fun ranges_in_order :: "int \<Rightarrow> int \<Rightarrow> MessageRange list \<Rightarrow> bool" where
  "ranges_in_order lo n [] = True"
| "ranges_in_order lo n (m # ms) =
     (lo \<le> offset m \<and> 0 \<le> range_length m \<and> offset m + range_length m \<le> n
      \<and> ranges_in_order (offset m + range_length m) n ms)"

text \<open>
  Application in forward order: the ranges are taken first to last, and \<open>shift\<close> is
  how far the replacements made so far have moved the text behind them.
\<close>

fun forward_substitute :: "int \<Rightarrow> pystr \<Rightarrow> MessageRange list \<Rightarrow> pystr" where
  "forward_substitute shift t [] = t"
| "forward_substitute shift t (m # ms) =
     (case mention_id m of
        None \<Rightarrow> forward_substitute shift t ms
      | Some i \<Rightarrow>
          forward_substitute (shift + int (length (mention_token i)) - range_length m)
            (slice_to t (offset m + shift) @ mention_token i
               @ slice_from t (offset m + shift + range_length m))
            ms)"

text \<open>Application in reverse offset order: the range with the highest offset first.\<close>

definition substitute_highest_offset_first :: "pystr \<Rightarrow> MessageRange list \<Rightarrow> pystr" where
  "substitute_highest_offset_first t rs = foldl substitute_mention t (rev (sort_key offset rs))"

text \<open>The ranges with every offset moved down by \<open>q\<close>.\<close>

definition shift_ranges :: "int \<Rightarrow> MessageRange list \<Rightarrow> MessageRange list" where
  "shift_ranges q rs = map (\<lambda>r. r\<lparr>offset := offset r - q\<rparr>) rs"

text \<open>Messages for the examples of mention substitution.\<close>

definition mention :: "int \<Rightarrow> int \<Rightarrow> string \<Rightarrow> MessageRange" where
  "mention off len i =
     \<lparr>offset = off, range_length = len, entity = Some \<lparr>entity_id = Some (ustr i)\<rparr>\<rparr>"

definition said :: "string \<Rightarrow> MessageRange list \<Rightarrow> Message" where
  "said t rs = (note_at 900)\<lparr>message_body := Some \<lparr>body_text = ustr t, ranges = rs\<rparr>\<rparr>"



section \<open>Properties\<close>

subsection \<open>Reactions\<close>

text \<open>
  C1. The claim: one reaction row per distinct emoji, counting every reaction with that
  emoji wherever it stands in the list. The program groups runs of equal neighbours
  only: for the reactions U+1F600, U+2764, U+1F600, U+1F600 in this order it produces
  three rows, two of them for U+1F600, with the counts 1 and 2, and no row with the
  count 3.
\<close>

theorem convert_message_reactions_adjacent_runs:
  "reactions (convert_message u16
       (m\<lparr>message_reactions :=
            [\<lparr>reaction = [128512]\<rparr>, \<lparr>reaction = [10084]\<rparr>,
             \<lparr>reaction = [128512]\<rparr>, \<lparr>reaction = [128512]\<rparr>]\<rparr>) tid)
     = Some [(message_id m, [128512], 1), (message_id m, [10084], 1),
             (message_id m, [128512], 2)]"
  by (simp add: convert_message_def convert_reactions_def)

subsection \<open>The requests of the paginator\<close>

text \<open>
  C5. The claim: once the metadata gives a canonical channel id that differs from the
  requested one, everything uses the canonical id, the page fetches included; a missing
  canonical id skips the channel. For the requested id 1 and the canonical id 2 the
  channel row and the message rows carry 2, but the page request carries 1. The
  second part holds: without a canonical id the channel is skipped.
\<close>

theorem fetch_messages_uses_requested_id:
  "(case open_channel a db 1 (Some [info\<lparr>thread_key_id := Some 2\<rparr>]) of
       None \<Rightarrow> False
     | Some (ch, db') \<Rightarrow>
         req_thread_id (fetch_messages_request a ch st) = 1 \<and>
         real_thread_id ch = 2 \<and>
         (2, or_else (thread_name info) (ustr ''No name'')) \<in> set (channels db') \<and>
         map_option (\<lambda>(i, s, c, r). c) (message (convert_message u16 m (real_thread_id ch)))
           = Some 2)
    \<and> open_channel a db tid (Some (info\<lparr>thread_key_id := None\<rparr> # infos)) = None"
  by (auto simp add: open_channel_def fetch_messages_request_def convert_message_def
        upsert_channel_def)

text \<open>
  C6. The claim: a page request asks for the configured batch size, 95 unless
  \<open>--messages-per-fetch\<close> overrides it. With the override 50 the request still asks for
  95 messages before the cursor.
\<close>

theorem fetch_messages_ignores_page_size:
  "fetch_messages_request (a\<lparr>messages_per_fetch := 50\<rparr>) ch st
     = \<lparr>req_thread_id = thread_id ch, req_before_time_ms = before_time_ms st,
        req_msg_count = 95\<rparr>"
  by (simp add: fetch_messages_request_def)

subsection \<open>Errors of a page fetch\<close>






subsection \<open>The wait after a rate-limited upload\<close>

lemma upload_sleeps_parsed_duration:
  assumes "http_post client webhook_url fname attachment_data n = Post_response headers Not_json"
    and "parse_ratelimit_header rt (now rt n) headers False = Inr d"
  shows "upload client rt webhook_url fname attachment_data n evs =
         upload client rt webhook_url fname attachment_data (n + 1)
           (evs @ [Post webhook_url, Sleep d])"
  by (subst upload.simps) (simp add: assms)

text \<open>
  C9, as the claim states it, fails: with the header \<open>X-Ratelimit-Reset-After: 5\<close> and
  no \<open>X-Ratelimit-Reset\<close>, the wait is 60 seconds, not 5.
\<close>

theorem parse_ratelimit_header_reset_after_alone:
  "parse_ratelimit_header plain_runtime 0
      [ustr ''X-Ratelimit-Reset-After'' \<mapsto> ustr ''5''] False = Inr 60
   \<and> pyfloat plain_runtime (ustr ''5'') = Some 5"
  by (simp add: parse_ratelimit_header_def plain_runtime_def float_of_digits_def ustr_def)

text \<open>
  C9, amended. The wait is decided by \<open>X-Ratelimit-Reset\<close> first: when that header is
  missing or empty the wait is 60 seconds, whatever \<open>X-Ratelimit-Reset-After\<close> says.
  When it is present, a present \<open>X-Ratelimit-Reset-After\<close> gives the wait, and
  otherwise the wait is the reset time minus the clock.
\<close>

theorem parse_ratelimit_header_choice:
  "(\<forall>r ra x. headers (ustr ''X-Ratelimit-Reset'') = Some r \<and> r \<noteq> [] \<and>
       headers (ustr ''X-Ratelimit-Reset-After'') = Some ra \<and> ra \<noteq> [] \<and>
       pyfloat rt ra = Some x
       \<longrightarrow> parse_ratelimit_header rt clock headers False = Inr x)
 \<and> (\<forall>r t. headers (ustr ''X-Ratelimit-Reset'') = Some r \<and> r \<noteq> [] \<and>
       \<not> truthy (headers (ustr ''X-Ratelimit-Reset-After'')) \<and> pyfloat rt r = Some t
       \<longrightarrow> parse_ratelimit_header rt clock headers False = Inr (t - clock))
 \<and> (\<not> truthy (headers (ustr ''X-Ratelimit-Reset''))
       \<longrightarrow> parse_ratelimit_header rt clock headers False = Inr 60)"
  by (auto simp add: parse_ratelimit_header_def Let_def)

theorem parse_ratelimit_header_choice_witness:
  "parse_ratelimit_header plain_runtime 0
     [ustr ''X-Ratelimit-Reset'' \<mapsto> ustr ''100'',
      ustr ''X-Ratelimit-Reset-After'' \<mapsto> ustr ''5''] False = Inr 5"
  using parse_ratelimit_header_choice
          [of "[ustr ''X-Ratelimit-Reset'' \<mapsto> ustr ''100'',
                ustr ''X-Ratelimit-Reset-After'' \<mapsto> ustr ''5'']" plain_runtime 0]
  by (simp add: plain_runtime_def float_of_digits_def ustr_def)

subsection \<open>The file name of an attachment\<close>

text \<open>
  C10. An attachment with a truthy media type, no dot in its file name and no extension
  known for the media type makes \<open>convert_attachment\<close> raise \<open>TypeError\<close>; and whenever
  \<open>convert_attachment\<close> returns (a row or \<open>None\<close>), the file name has a dot, or the media
  type is missing or empty, or an extension is known for it.
\<close>

theorem convert_attachment_raises_without_extension:
  "(\<forall>mt. mimetype att = Some mt \<and> mt \<noteq> [] \<and> 46 \<notin> set (filename att) \<and>
         guess_extension rt mt = None
      \<longrightarrow> convert_attachment client rt att webhook_url tid mid = Some (Inl TypeError))
   \<and> (\<forall>r. convert_attachment client rt att webhook_url tid mid = Some (Inr r)
      \<longrightarrow> 46 \<in> set (filename att) \<or> \<not> truthy (mimetype att)
          \<or> (\<exists>mt ext. mimetype att = Some mt \<and> guess_extension rt mt = Some ext))"
  by (auto simp add: convert_attachment_def attachment_filename_def
        split: option.splits if_splits sum.splits)

theorem convert_attachment_raises_without_extension_witness:
  "convert_attachment offline plain_runtime photo (ustr ''https://hook'') 1 (ustr ''m1'')
     = Some (Inl TypeError)"
  using convert_attachment_raises_without_extension
          [of photo plain_runtime offline "ustr ''https://hook''" 1 "ustr ''m1''"]
  by (simp add: photo_def plain_runtime_def ustr_def)

subsection \<open>The download loop\<close>

declare download.simps [simp del]

lemma download_retry:
  assumes "attempts \<le> 10" "transport_failure (raw_http_get client url referer attempts)"
  shows "download client url referer attempts evs =
         download client url referer (attempts + 1)
           (evs @ [Get url referer, Sleep (2 ^ attempts)])"
  using assms
  by (subst download.simps) (auto split: get_outcome.splits option.splits sum.splits)

lemma download_all_fail:
  assumes "\<forall>k \<le> 10. transport_failure (raw_http_get client url referer k)"
  shows "attempts \<le> 11 \<Longrightarrow> download client url referer attempts evs =
     (Inr None, evs @ concat (map (\<lambda>k. [Get url referer, Sleep (2 ^ k)]) [attempts..<11]))"
proof (induction "11 - attempts" arbitrary: attempts evs)
  case 0
  then have "attempts = 11" by simp
  then show ?case by (subst download.simps) simp
next
  case (Suc d)
  then have le: "attempts \<le> 10" by simp
  with assms have tf: "transport_failure (raw_http_get client url referer attempts)" by simp
  have "d = 11 - (attempts + 1)" using Suc.hyps(2) by simp
  from Suc.hyps(1) [OF this] le
  have "download client url referer (attempts + 1)
          (evs @ [Get url referer, Sleep (2 ^ attempts)]) =
     (Inr None, (evs @ [Get url referer, Sleep (2 ^ attempts)])
        @ concat (map (\<lambda>k. [Get url referer, Sleep (2 ^ k)]) [attempts + 1..<11]))"
    by simp
  moreover have "[attempts..<11] = attempts # [attempts + 1..<11]"
    using le by (simp add: upt_conv_Cons)
  ultimately show ?case
    by (simp add: download_retry [OF le tf])
qed

lemma upt_11: "[0..<11] = [0, 1, 2, 3, 4, 5, 6, 7, 8, 9, 10 :: nat]"
  by (simp add: upt_conv_Cons)

text \<open>
  C3, as the claim states it, fails: when every attempt raises \<open>ClientOSError\<close>, the
  function makes 11 requests and sleeps 11 times, the last time for \<open>2^10 = 1024\<close>
  seconds, before it returns \<open>None\<close>.
\<close>

theorem reupload_fb_file_eleven_attempts:
  "(case reupload_fb_file offline plain_runtime (ustr ''https://cdn/f'') (ustr ''f.bin'')
           (ustr ''https://hook'') (ustr ''unknown'') of
      Some (Inr None, evs) \<Rightarrow>
        sleeps_of evs = [1, 2, 4, 8, 16, 32, 64, 128, 256, 512, 1024] \<and>
        length (sleeps_of evs) = 11 \<and> gets_of evs = 11
    | _ \<Rightarrow> False)"
proof -
  have "\<forall>k \<le> 10. transport_failure
          (raw_http_get offline (ustr ''https://cdn/f'')
             (referer_header offline (ustr ''unknown'')) k)"
    by (simp add: offline_def is_transport_error_def)
  from download_all_fail [OF this, of 0 "[]"]
  show ?thesis
    by (simp add: reupload_fb_file_def upt_11)
qed

text \<open>
  C3, amended. When each of the attempts 0 to 10 fails with a transport-level error,
  \<open>reupload_fb_file\<close> makes exactly 11 download attempts (the first one and 10 retries),
  sleeps \<open>2^attempt\<close> seconds after each of them, that is \<open>2^0, \<dots>, 2^10\<close> seconds, and then
  returns \<open>None\<close> without any upload request.
\<close>

theorem reupload_fb_file_abandons_download:
  assumes "\<forall>k \<le> 10. transport_failure
             (raw_http_get client url (referer_header client referer) k)"
  shows "\<exists>evs. reupload_fb_file client rt url fname webhook_url referer = Some (Inr None, evs)
     \<and> gets_of evs = 11 \<and> posts_of evs = 0
     \<and> sleeps_of evs = map (\<lambda>k. 2 ^ k) [0..<11]"
proof -
  let ?h = "referer_header client referer"
  have "download client url ?h 0 [] =
     (Inr None, concat (map (\<lambda>k. [Get url ?h, Sleep (2 ^ k)]) [0..<11]))"
    using download_all_fail [OF assms, of 0 "[]"] by simp
  then show ?thesis
    by (simp add: reupload_fb_file_def upt_11)
qed

theorem reupload_fb_file_abandons_download_witness:
  "\<exists>evs. reupload_fb_file truncating plain_runtime (ustr ''https://cdn/f'') (ustr ''f.bin'')
            (ustr ''https://hook'') (ustr ''unknown'') = Some (Inr None, evs)
     \<and> gets_of evs = 11 \<and> posts_of evs = 0
     \<and> sleeps_of evs = map (\<lambda>k. 2 ^ k) [0..<11]"
proof -
  have "\<forall>k \<le> 10. transport_failure
          (raw_http_get truncating (ustr ''https://cdn/f'')
             (referer_header truncating (ustr ''unknown'')) k)"
    by (simp add: truncating_def offline_def is_transport_error_def)
  then show ?thesis
    by (rule reupload_fb_file_abandons_download)
qed

subsection \<open>The worker and a conversion that yields None\<close>

text \<open>
  For a blob attachment the worker skips a \<open>None\<close> result: a message whose only
  attachment is of an unsupported type is forwarded with an empty list of rows.
\<close>

lemma attachment_worker_skips_unsupported_blob:
  "attachment_worker client rt tid urls []
     (m\<lparr>sticker := None,
        blob_attachments := [att\<lparr>typename := UNKNOWN t, mimetype := None\<rparr>]\<rparr>)
   = Some (Inr (empty_batch\<lparr>attachments := Some []\<rparr>))"
  by (simp add: attachment_worker_def sticker_rows_def blob_rows_def convert_attachment_def
      attachment_filename_def attachment_source_def enumerate_eq_zip gather_def
      List.map_filter_simps)

text \<open>
  C2. The claim: a \<open>None\<close> result for an attachment, the sticker included, only drops
  that row; the worker raises nothing and forwards the other attachments. For a
  message with a sticker whose metadata lookup raises \<open>ResponseTypeError\<close>,
  \<open>convert_sticker\<close> returns \<open>None\<close>, and the worker then raises \<open>TypeError\<close> (it
  subscripts the result without a test): no batch is forwarded, whatever blob
  attachments the message has.
\<close>

theorem attachment_worker_raises_on_sticker_none:
  "convert_sticker (client\<lparr>fetch_stickers := (\<lambda>_. Inl ResponseTypeError)\<rparr>) rt st url
     = Some (Inr None)
   \<and> attachment_worker (client\<lparr>fetch_stickers := (\<lambda>_. Inl ResponseTypeError)\<rparr>) rt tid urls []
       (m\<lparr>sticker := Some st\<rparr>) = Some (Inl TypeError)"
  by (simp add: attachment_worker_def sticker_rows_def convert_sticker_def)

subsection \<open>The cursor\<close>

lemma stuck_step:
  "backfill_step u16 ch (fetch_messages stuck (fetch_messages_request a ch st) n)
       (st\<lparr>requests := requests st @ [fetch_messages_request a ch st]\<rparr>)
   = Continue ((enqueue_message u16 ch
                 (st\<lparr>requests := requests st @ [fetch_messages_request a ch st]\<rparr>)
                 (note_at (before_time_ms st + 1)))\<lparr>before_time_ms := before_time_ms st\<rparr>)"
  by (simp add: stuck_def offline_def backfill_step_def fetch_messages_request_def note_at_def)

lemma stuck_never_returns:
  assumes "backfill_loop u16 api a ch n st = Some r"
  shows "api \<noteq> stuck"
proof (rule backfill_loop.raw_induct [where P = "\<lambda>_ api _ _ _ _ _. api \<noteq> stuck", OF _ assms])
  fix bl :: "utf16_surrogate \<Rightarrow> AndroidAPI \<Rightarrow> args \<Rightarrow> channel \<Rightarrow> nat \<Rightarrow> backfill
               \<Rightarrow> (error + backfill) option"
  fix u16 api a ch n st r
  assume IH: "\<And>u16 api a ch n st y. bl u16 api a ch n st = Some y \<Longrightarrow> api \<noteq> stuck"
    and body: "(let req = fetch_messages_request a ch st
      in case backfill_step u16 ch (fetch_messages api req n)
               (st\<lparr>requests := requests st @ [req]\<rparr>) of
         Continue st' \<Rightarrow> bl u16 api a ch (n + 1) st'
         | Exhausted st' \<Rightarrow> Some (Inr st') | Raised e st' \<Rightarrow> Some (Inl e)) = Some r"
  show "api \<noteq> stuck"
  proof
    assume "api = stuck"
    with body have "\<exists>st'. bl u16 stuck a ch (n + 1) st' = Some r"
      by (auto simp add: Let_def stuck_step)
    with IH show False by blast
  qed
qed

text \<open>
  C4, as the claim states it, fails: the loop has no check that the cursor advances.
  At the source \<open>stuck\<close> every page is non-empty and leaves the cursor where it was,
  and the loop never returns.
\<close>

theorem backfill_loop_stuck_forever:
  "backfill_loop utf16 stuck cli channel_1 0 (start_backfill 1000) = None"
  using stuck_never_returns [of utf16 stuck cli channel_1 0 "start_backfill 1000"]
  by (cases "backfill_loop utf16 stuck cli channel_1 0 (start_backfill 1000)") auto

text \<open>
  C4, amended. After a fetch that returns a non-empty page the loop enqueues the
  messages, sets the cursor to the timestamp of the first message of the page minus
  one, whatever the cursor was, and fetches again; it ends as exhausted exactly when
  a fetch returns an empty page.
\<close>

theorem backfill_loop_page:
  "(\<forall>m0 ms. fetch_messages api (fetch_messages_request a ch st) n = Inr (m0 # ms) \<longrightarrow>
      backfill_loop u16 api a ch n st =
      backfill_loop u16 api a ch (n + 1)
        ((foldl (enqueue_message u16 ch)
            (st\<lparr>requests := requests st @ [fetch_messages_request a ch st]\<rparr>) (m0 # ms))
           \<lparr>before_time_ms := timestamp m0 - 1\<rparr>))
 \<and> (fetch_messages api (fetch_messages_request a ch st) n = Inr [] \<longrightarrow>
      backfill_loop u16 api a ch n st
        = Some (Inr (st\<lparr>requests := requests st @ [fetch_messages_request a ch st]\<rparr>)))"
  by (subst backfill_loop.simps, subst (2) backfill_loop.simps)
     (simp add: Let_def backfill_step_def)

text \<open>
  At the source \<open>one_page\<close>: the first fetch moves the cursor from 1000 to 899, the
  second finds the channel exhausted.
\<close>

theorem backfill_loop_page_witness:
  "backfill_loop utf16 one_page cli channel_1 0 (start_backfill 1000) =
   Some (Inr \<lparr>before_time_ms = 899,
      db_queue = [convert_message utf16 (note_at 900) 1], attachment_queue = [],
      sleeps = [],
      requests = [\<lparr>req_thread_id = 1, req_before_time_ms = 1000, req_msg_count = 95\<rparr>,
                  \<lparr>req_thread_id = 1, req_before_time_ms = 899, req_msg_count = 95\<rparr>]\<rparr>)"
proof -
  let ?st1 = "(foldl (enqueue_message utf16 channel_1)
            ((start_backfill 1000)\<lparr>requests := requests (start_backfill 1000)
                 @ [fetch_messages_request cli channel_1 (start_backfill 1000)]\<rparr>)
            [note_at 900])
           \<lparr>before_time_ms := timestamp (note_at 900) - 1\<rparr>"
  have f0: "fetch_messages one_page
              (fetch_messages_request cli channel_1 (start_backfill 1000)) 0
              = Inr [note_at 900]"
    by (simp add: one_page_def offline_def)
  have f1: "fetch_messages one_page (fetch_messages_request cli channel_1 ?st1) (0 + 1)
              = Inr []"
    by (simp add: one_page_def offline_def)
  have "backfill_loop utf16 one_page cli channel_1 0 (start_backfill 1000) =
        backfill_loop utf16 one_page cli channel_1 (0 + 1) ?st1"
    using backfill_loop_page [of one_page cli channel_1 "start_backfill 1000" 0 utf16] f0
    by blast
  also have "\<dots> = Some (Inr (?st1\<lparr>requests := requests ?st1
                          @ [fetch_messages_request cli channel_1 ?st1]\<rparr>))"
    using backfill_loop_page [of one_page cli channel_1 ?st1 "0 + 1" utf16] f1 by blast
  finally show ?thesis
    by (simp add: start_backfill_def fetch_messages_request_def enqueue_message_def
          channel_1_def note_at_def)
qed

subsection \<open>Mention substitution\<close>

lemma slice_to_append:
  "0 \<le> i \<Longrightarrow> slice_to (A @ B) (int (length A) + i) = A @ slice_to B i"
  by (simp add: slice_to_def slice_index_def min_def nat_add_distrib)

lemma slice_from_append:
  "0 \<le> i \<Longrightarrow> slice_from (A @ B) (int (length A) + i) = slice_from B i"
  by (simp add: slice_from_def slice_index_def min_def nat_add_distrib)

lemma substitute_mentions_Cons:
  "substitute_mentions t (m # ms) = substitute_mention (substitute_mentions t ms) m"
  by (simp add: substitute_mentions_def)

lemma substitute_mentions_Nil: "substitute_mentions t [] = t"
  by (simp add: substitute_mentions_def)

lemma mention_id_shift: "mention_id (r\<lparr>offset := k\<rparr>) = mention_id r"
  by (simp add: mention_id_def)

lemma substitute_mention_append:
  assumes "int (length A) \<le> offset m" "int (length A) \<le> offset m + range_length m"
  shows "substitute_mention (A @ Y) m
           = A @ substitute_mention Y (m\<lparr>offset := offset m - int (length A)\<rparr>)"
proof -
  have a: "slice_to (A @ Y) (offset m) = A @ slice_to Y (offset m - int (length A))"
    using slice_to_append [of "offset m - int (length A)" A Y] assms by simp
  have b: "slice_from (A @ Y) (offset m + range_length m)
             = slice_from Y (offset m - int (length A) + range_length m)"
    using slice_from_append [of "offset m + range_length m - int (length A)" A Y] assms
    by (simp add: algebra_simps)
  show ?thesis
    by (simp add: substitute_mention_def mention_id_shift a b split: option.splits)
qed

lemma substitute_mentions_prefix:
  assumes "\<forall>m \<in> set rs. int (length A) \<le> offset m
                          \<and> int (length A) \<le> offset m + range_length m"
  shows "substitute_mentions (A @ B) rs
           = A @ substitute_mentions B (shift_ranges (int (length A)) rs)"
  using assms
proof (induction rs)
  case Nil
  show ?case by (simp add: substitute_mentions_Nil shift_ranges_def)
next
  case (Cons m ms)
  then have "substitute_mentions (A @ B) ms
      = A @ substitute_mentions B (shift_ranges (int (length A)) ms)" by simp
  moreover have "int (length A) \<le> offset m" "int (length A) \<le> offset m + range_length m"
    using Cons.prems by simp_all
  ultimately show ?case
    by (simp add: substitute_mentions_Cons shift_ranges_def substitute_mention_append)
qed

lemma ranges_in_order_mono:
  "ranges_in_order lo n rs \<Longrightarrow> lo' \<le> lo \<Longrightarrow> ranges_in_order lo' n rs"
  by (cases rs) auto

lemma ranges_in_order_bounds:
  "ranges_in_order lo n rs \<Longrightarrow>
     \<forall>m \<in> set rs. lo \<le> offset m \<and> lo \<le> offset m + range_length m"
proof (induction rs arbitrary: lo)
  case Nil
  show ?case by simp
next
  case (Cons m ms)
  from Cons.prems have "ranges_in_order (offset m + range_length m) n ms"
    and le: "lo \<le> offset m" "0 \<le> range_length m" by simp_all
  from Cons.IH [OF this(1)] le show ?case by fastforce
qed

lemma shift_ranges_shift: "shift_ranges p (shift_ranges q rs) = shift_ranges (p + q) rs"
  by (simp add: shift_ranges_def algebra_simps)

lemma shift_ranges_Cons:
  "shift_ranges q (m # ms) = (m\<lparr>offset := offset m - q\<rparr>) # shift_ranges q ms"
  by (simp add: shift_ranges_def)

lemma shift_ranges_0: "shift_ranges 0 rs = rs"
  by (simp add: shift_ranges_def)

text \<open>
  The induction behind the claim: with the text split as \<open>A @ B\<close> and the ranges in
  order inside \<open>B\<close>, forward application leaves \<open>A\<close> alone and does to \<open>B\<close> what
  the program's loop does.
\<close>

lemma forward_general:
  "ranges_in_order q (q + int (length B)) rs \<Longrightarrow>
     forward_substitute (int (length A) - q) (A @ B) rs
       = A @ substitute_mentions B (shift_ranges q rs)"
proof (induction rs arbitrary: q A B)
  case Nil
  show ?case by (simp add: substitute_mentions_Nil shift_ranges_def)
next
  case (Cons m ms)
  let ?o = "offset m" and ?l = "range_length m"
  from Cons.prems have lo: "q \<le> ?o" and l0: "0 \<le> ?l"
    and hi: "?o + ?l \<le> q + int (length B)"
    and rest: "ranges_in_order (?o + ?l) (q + int (length B)) ms" by simp_all
  show ?case
  proof (cases "mention_id m")
    case None
    have "ranges_in_order q (q + int (length B)) ms"
      using rest lo l0 by (auto intro: ranges_in_order_mono)
    from Cons.IH [OF this, of A] None show ?thesis
      by (simp add: shift_ranges_Cons substitute_mentions_Cons substitute_mention_def
            mention_id_shift)
  next
    case (Some i)
    define o' where "o' = nat (?o - q)"
    define l' where "l' = nat ?l"
    define B1 where "B1 = take o' B"
    define R where "R = take l' (drop o' B)"
    define B' where "B' = drop (o' + l') B"
    have o': "int o' = ?o - q" and l': "int l' = ?l"
      using lo l0 by (simp_all add: o'_def l'_def)
    have len: "o' + l' \<le> length B" using hi o' l' by linarith
    have B: "B = B1 @ R @ B'"
      unfolding B1_def R_def B'_def
      by (simp add: add.commute [of o' l'] drop_drop [symmetric] del: drop_drop)
    have lB1: "length B1 = o'" and lR: "length R = l'"
      and lB': "int (length B') = q + int (length B) - (?o + ?l)"
      using len o' l' by (simp_all add: B1_def R_def B'_def)
    \<comment> \<open>the program's side\<close>
    have bounds: "\<forall>m' \<in> set (shift_ranges q ms).
                    int (length (B1 @ R)) \<le> offset m'
                    \<and> int (length (B1 @ R)) \<le> offset m' + range_length m'"
      using ranges_in_order_bounds [OF rest] o' l' lB1 lR
      by (auto simp add: shift_ranges_def)
    have "substitute_mentions B (shift_ranges q ms)
            = (B1 @ R) @ substitute_mentions B'
                           (shift_ranges (int (length (B1 @ R))) (shift_ranges q ms))"
      using substitute_mentions_prefix [OF bounds, of B'] B by simp
    also have "shift_ranges (int (length (B1 @ R))) (shift_ranges q ms)
                 = shift_ranges (?o + ?l) ms"
      using o' l' lB1 lR by (simp add: shift_ranges_shift)
    finally have sm: "substitute_mentions B (shift_ranges q ms)
            = B1 @ R @ substitute_mentions B' (shift_ranges (?o + ?l) ms)" by simp
    have s1: "slice_to (B1 @ R @ Y) (?o - q) = B1" for Y
      using slice_to_append [of 0 B1 "R @ Y"] o' lB1 by (simp add: slice_to_def slice_index_def)
    have s2: "slice_from (B1 @ R @ Y) (?o - q + ?l) = Y" for Y
      using slice_from_append [of 0 "B1 @ R" Y] o' l' lB1 lR
      by (simp add: slice_from_def slice_index_def)
    have rhs: "substitute_mentions B (shift_ranges q (m # ms))
        = B1 @ mention_token i @ substitute_mentions B' (shift_ranges (?o + ?l) ms)"
      by (simp add: shift_ranges_Cons substitute_mentions_Cons sm substitute_mention_def
            mention_id_shift Some s1 s2)
    \<comment> \<open>the forward side\<close>
    have f1: "slice_to (A @ B) (?o + (int (length A) - q)) = A @ B1"
      using slice_to_append [of "?o - q" A B] lo s1 [of B'] B by (simp add: algebra_simps)
    have f2: "slice_from (A @ B) (?o + (int (length A) - q) + ?l) = B'"
      using slice_from_append [of "?o - q + ?l" A B] lo l0 s2 [of B'] B
      by (simp add: algebra_simps)
    have "ranges_in_order (?o + ?l) ((?o + ?l) + int (length B')) ms"
      using rest lB' by simp
    from Cons.IH [OF this, of "A @ B1 @ mention_token i"]
    have ih: "forward_substitute (int (length (A @ B1 @ mention_token i)) - (?o + ?l))
                 ((A @ B1 @ mention_token i) @ B') ms
            = (A @ B1 @ mention_token i) @ substitute_mentions B' (shift_ranges (?o + ?l) ms)" .
    have sh: "int (length A) - q + int (length (mention_token i)) - ?l
                = int (length (A @ B1 @ mention_token i)) - (?o + ?l)"
      using o' lB1 by simp
    have "forward_substitute (int (length A) - q) (A @ B) (m # ms)
        = forward_substitute (int (length (A @ B1 @ mention_token i)) - (?o + ?l))
                 ((A @ B1 @ mention_token i) @ B') ms"
      by (simp only: forward_substitute.simps Some option.case f1 f2 sh append_assoc)
    with ih rhs show ?thesis by simp
  qed
qed

lemma substitute_mentions_forward:
  "ranges_in_order 0 (int (length t)) rs \<Longrightarrow>
     substitute_mentions t rs = forward_substitute 0 t rs"
  using forward_general [of 0 t rs "[]"] by (simp add: shift_ranges_0)

lemmas rx_eval = escape_markdown_def match_here_def URL_REGEX_def MARKDOWN_STOCK_REGEX_def
  rx_lit_def rx_plus_def rx_opt_def one_of_def isspace_def

lemma escape_markdown_hello: "escape_markdown (ustr ''hello <@42>'') = ustr ''hello <@42>''"
  by (simp add: rx_eval ustr_def)

lemma escape_markdown_garbled: "escape_markdown (ustr ''<@1<@2>cd'') = ustr ''<@1<@2>cd''"
  by (simp add: rx_eval ustr_def)

lemma escape_markdown_two_tokens: "escape_markdown (ustr ''<@1> <@2>'') = ustr ''<@1> <@2>''"
  by (simp add: rx_eval ustr_def)

lemmas mention_eval = substitute_mention_def mention_def mention_id_def mention_token_def
  slice_to_def slice_from_def slice_index_def

text \<open>
  Where the ranges are listed in ascending offset order, do not overlap and lie inside
  the text (as UTF-16 code units), the program does what the claim says: walking the
  list backwards is then highest offset first, and the text of the message row is the
  body with every range that has an entity id replaced by its token, as forward
  application with adjusted offsets gives it, then rid of surrogates and escaped.
\<close>

lemma convert_message_mentions_ascending:
  assumes "is_user_generated m" "message_body m = Some b"
    "ranges_in_order 0 (int (length (add u16 (body_text b)))) (ranges b)"
  shows "message (convert_message u16 m tid) =
       Some (message_id m, sender_id (message_sender m), tid,
             escape_markdown
               (remove u16 (forward_substitute 0 (add u16 (body_text b)) (ranges b))),
             timestamp m, unsent_timestamp m)"
  using assms by (simp add: convert_message_def convert_text_def substitute_mentions_forward)

text \<open>
  For \<open>hello world\<close> with one range of offset 6 and length 5 for the entity 42, the
  text is \<open>hello\<close>, a space and the token.
\<close>

lemma convert_message_hello_world:
  "message (convert_message utf16 (said ''hello world'' [mention 6 5 ''42'']) 1) =
    Some (ustr ''mid.1'', ustr ''100'', 1, ustr ''hello <@42>'', 900, None)"
proof -
  let ?m = "said ''hello world'' [mention 6 5 ''42'']"
  let ?b = "\<lparr>body_text = ustr ''hello world'', ranges = [mention 6 5 ''42'']\<rparr>"
  have u1: "utf16_add (ustr ''hello world'') = ustr ''hello world''"
    by (simp add: utf16_add_def ustr_def)
  have u2: "utf16_remove (ustr ''hello <@42>'') = ustr ''hello <@42>''"
    by (simp add: ustr_def)
  have a: "is_user_generated ?m" by (simp add: said_def note_at_def)
  have b: "message_body ?m = Some ?b" by (simp add: said_def)
  have c: "ranges_in_order 0 (int (length (add utf16 (body_text ?b)))) (ranges ?b)"
    by (simp add: utf16_def u1 mention_def) (simp add: ustr_def)
  have f: "forward_substitute 0 (ustr ''hello world'') [mention 6 5 ''42'']
             = ustr ''hello <@42>''"
    by (simp add: mention_def mention_id_def mention_token_def slice_to_def slice_from_def
          slice_index_def ustr_def)
  show ?thesis
    using convert_message_mentions_ascending [OF a b c, of 1]
    by (simp add: utf16_def u1 u2 f escape_markdown_hello said_def note_at_def
          del: forward_substitute.simps)
qed

text \<open>
  C8. The claim: for every user-generated message the ranges are processed in reverse
  offset order, highest offset first, so that a replacement does not invalidate the
  offsets still to come, and for non-overlapping ranges the result is that of forward
  application. The program walks the list backwards and never looks at the offsets.
  For the text \<open>ab cd\<close> with a range for \<open>ab\<close> (entity 1) and a range for \<open>cd\<close>
  (entity 2): listed in ascending offset order the text becomes the two tokens with
  the space between them; listed in descending order the program replaces at offset
  0 first and then cuts at the stale offset 3, and the text comes out garbled, where
  highest offset first still gives the two tokens and the space.
\<close>

theorem convert_text_listed_descending:
  "convert_text utf16 (said ''ab cd'' [mention 3 2 ''2'', mention 0 2 ''1''])
     = ustr ''<@1<@2>cd''
   \<and> substitute_highest_offset_first (utf16_add (ustr ''ab cd''))
         [mention 3 2 ''2'', mention 0 2 ''1''] = ustr ''<@1> <@2>''
   \<and> convert_text utf16 (said ''ab cd'' [mention 0 2 ''1'', mention 3 2 ''2''])
     = ustr ''<@1> <@2>''"
proof -
  have s: "substitute_mentions (ustr ''ab cd'') [mention 3 2 ''2'', mention 0 2 ''1'']
             = ustr ''<@1<@2>cd''"
    by (simp add: substitute_mentions_def mention_eval ustr_def)
  have h: "substitute_highest_offset_first (ustr ''ab cd'')
             [mention 3 2 ''2'', mention 0 2 ''1''] = ustr ''<@1> <@2>''"
    by (simp add: substitute_highest_offset_first_def mention_eval ustr_def)
  have t: "substitute_mentions (ustr ''ab cd'') [mention 0 2 ''1'', mention 3 2 ''2'']
             = ustr ''<@1> <@2>''"
    by (simp add: substitute_mentions_def mention_eval ustr_def)
  have a: "utf16_add (ustr ''ab cd'') = ustr ''ab cd''"
    by (simp add: utf16_add_def ustr_def)
  have r: "utf16_remove (ustr ''<@1<@2>cd'') = ustr ''<@1<@2>cd''"
    by (simp add: ustr_def)
  have r': "utf16_remove (ustr ''<@1> <@2>'') = ustr ''<@1> <@2>''"
    by (simp add: ustr_def)
  show ?thesis
    by (simp add: convert_text_def said_def note_at_def utf16_def a s t r r'
          escape_markdown_garbled escape_markdown_two_tokens h)
qed

end
